theory Spec2Isabelle
  imports Main "HOL-Library.Word"
begin

unbundle bit_operations_syntax

section \<open>The sandbox driver of crux-judge (sandbox.c)\<close>

text \<open>
  The driver is a C program whose behaviour is a sequence of system calls and calls to
  the repository's helpers. Each process (the parent running \<open>sandboxExec\<close>, the child
  running \<open>childFunc\<close>) is modelled as a function from an environment, which fixes what
  every call returns, to the sequence of calls the process makes and its result.
  A call that blocks (\<open>read\<close>, \<open>waitpid\<close>) is taken to return; the one loop of the
  program, in which the parent waits for the terminator, may run forever, and then the
  run has no result. The terminator and the child run beside the parent, which sees
  them only through what its calls return and what it reads from memory they share;
  the environment gives these values. The diagnostic output (\<open>printErr\<close>, \<open>printf\<close>) has
  no influence on the control flow and is left out.
\<close>

subsection \<open>Constants\<close>

text \<open>\<open>#define EXIT_CHILD_FAILURE 1\<close> (sandbox.c, line 23).\<close>

definition EXIT_CHILD_FAILURE :: int where
  "EXIT_CHILD_FAILURE = 1"

text \<open>
  Constants of the platform headers, with their Linux values: the standard descriptors
  of \<open>unistd.h\<close>, the signal numbers of \<open>signal.h\<close>, the clone flag of \<open>sched.h\<close>.
  Pointers are natural numbers, the null pointer is 0.
\<close>

definition STDIN_FILENO :: int where
  "STDIN_FILENO = 0"

definition STDOUT_FILENO :: int where
  "STDOUT_FILENO = 1"

definition SIGTERM :: int where
  "SIGTERM = 15"

definition SIGCHLD :: "32 word" where
  "SIGCHLD = 17"

definition CLONE_NEWPID :: "32 word" where
  "CLONE_NEWPID = 0x20000000"

definition NULL :: nat where
  "NULL = 0"

datatype oflag = O_RDONLY | O_WRONLY | O_CREAT | O_TRUNC | O_CLOEXEC

text \<open>
  The result codes of \<open>sandbox.h\<close>, as the comment above \<open>sandboxExec\<close> lists them.
\<close>

datatype sb_result =
  SB_FAILURE | SB_RUNTIME_ERR | SB_OK | SB_MEM_EXCEED | SB_TIME_EXCEED | SB_TASK_EXCEED

text \<open>
  The values of the enumerators \<open>NO_EXCEED\<close>, \<open>FATAL_ERROR_EXCEED\<close>, \<open>MEM_LIM_EXCEED\<close>,
  \<open>TIME_LIM_EXCEED\<close> and \<open>TASK_LIM_EXCEED\<close> are declared in \<open>resource_limits.h\<close>, which
  is not among the sources. They are a parameter of the model. As labels of one
  \<open>switch\<close> they are pairwise distinct, or the program would not compile.
\<close>

record exceed_codes =
  NO_EXCEED :: int
  FATAL_ERROR_EXCEED :: int
  MEM_LIM_EXCEED :: int
  TIME_LIM_EXCEED :: int
  TASK_LIM_EXCEED :: int

definition codes_distinct :: "exceed_codes \<Rightarrow> bool" where
  "codes_distinct k =
     distinct [NO_EXCEED k, FATAL_ERROR_EXCEED k, MEM_LIM_EXCEED k,
               TIME_LIM_EXCEED k, TASK_LIM_EXCEED k]"

subsection \<open>The wait status\<close>

text \<open>
  \<open>waitpid\<close> stores a 32-bit status, which the program reads through the macros of
  \<open>sys/wait.h\<close>. These are glibc's definitions:
  \<^verbatim>\<open>WTERMSIG(s) = s & 0x7f\<close>, \<^verbatim>\<open>WIFEXITED(s) = (WTERMSIG(s) == 0)\<close>,
  \<^verbatim>\<open>WEXITSTATUS(s) = (s & 0xff00) >> 8\<close>,
  \<^verbatim>\<open>WIFSIGNALED(s) = (((signed char) ((s & 0x7f) + 1) >> 1) > 0)\<close>.
\<close>

definition WTERMSIG :: "32 word \<Rightarrow> int" where
  "WTERMSIG s = uint (s AND 0x7f)"

definition WIFEXITED :: "32 word \<Rightarrow> bool" where
  "WIFEXITED s = (WTERMSIG s = 0)"

definition WEXITSTATUS :: "32 word \<Rightarrow> int" where
  "WEXITSTATUS s = uint (drop_bit 8 (s AND 0xff00))"

definition WIFSIGNALED :: "32 word \<Rightarrow> bool" where
  "WIFSIGNALED s =
     (0 < sint (signed_drop_bit 1 (ucast ((s AND 0x7f) + 1) :: 8 word)))"

subsection \<open>Classification of the outcome (sandboxExec, lines 293 to 345)\<close>

text \<open>
  The \<open>switch\<close> on \<open>exceeded\<close> (lines 311 to 345), its labels in the order of the source.
\<close>

definition switch_exceeded :: "exceed_codes \<Rightarrow> 32 word \<Rightarrow> int \<Rightarrow> sb_result" where
  "switch_exceeded k wstatus exceeded =
    (if exceeded = NO_EXCEED k then
       (if WIFSIGNALED wstatus then SB_RUNTIME_ERR else SB_OK)
     else if exceeded = FATAL_ERROR_EXCEED k then SB_FAILURE
     else if exceeded = MEM_LIM_EXCEED k then SB_MEM_EXCEED
     else if exceeded = TIME_LIM_EXCEED k then SB_TIME_EXCEED
     else if exceeded = TASK_LIM_EXCEED k then SB_TASK_EXCEED
     else SB_FAILURE)"

text \<open>
  The test of the wait status (lines 293 to 309), which returns \<open>SB_FAILURE\<close> in two
  cases and goes on to the \<open>switch\<close> otherwise.
\<close>

definition classify :: "exceed_codes \<Rightarrow> 32 word \<Rightarrow> int \<Rightarrow> sb_result" where
  "classify k wstatus exceeded =
    (if WIFEXITED wstatus then
       (if WEXITSTATUS wstatus = EXIT_CHILD_FAILURE then SB_FAILURE
        else switch_exceeded k wstatus exceeded)
     else if WIFSIGNALED wstatus then switch_exceeded k wstatus exceeded
     else SB_FAILURE)"

subsection \<open>The child: childFunc (lines 39 to 135)\<close>

record ChildPayload =
  exect_path :: string
  jail_path :: string
  input_file :: string
  output_file :: string
  whitelist :: string
  ctx :: nat
  notify_c :: int
  notify_p :: int
  uid :: "32 word"
  gid :: "32 word"

text \<open>
  The calls of the child, each with its arguments and, last, the value it returned.
  \<open>Execl\<close> carries \<open>None\<close> when the call did not return, that is when the process image
  was replaced by the target binary.
\<close>

datatype child_event =
    Open string "oflag list" int
  | Dup2 int int int
  | CClose int int
  | CWrite int int
  | CRead int int
  | Chdir string int
  | Chroot string int
  | Setgid "32 word" int
  | Setuid "32 word" int
  | InstallSysCallBlocker nat int int
  | Execl string "int option"

text \<open>What the operating system answers to the child, one field for each call site.\<close>

record child_env =
  open_input_ret :: int
  open_output_ret :: int
  dup2_in_ret :: int
  dup2_out_ret :: int
  close_in_ret :: int
  close_out_ret :: int
  write_notify_p_ret :: int
  read_notify_c_ret :: int
  close_notify_c_ret :: int
  close_notify_p_ret :: int
  open_whitelist_ret :: int
  chdir_ret :: int
  chroot_ret :: int
  setgid_ret :: int
  setuid_ret :: int
  installSysCallBlocker_ret :: int
  execl_ret :: "int option"

text \<open>
  The child either returns from \<open>childFunc\<close>, which ends the process with that exit
  status, or it is replaced by the target binary.
\<close>

datatype child_result = Returned int | Replaced string

definition childFunc :: "child_env \<Rightarrow> ChildPayload \<Rightarrow> child_event list \<times> child_result" where
  "childFunc env cp =
    (let in_fd = open_input_ret env;
         t1 = [Open (input_file cp) [O_RDONLY] in_fd] in
     if in_fd = - 1 then (t1, Returned EXIT_CHILD_FAILURE) else
     let out_fd = open_output_ret env;
         t2 = t1 @ [Open (output_file cp) [O_WRONLY, O_CREAT, O_TRUNC] out_fd] in
     if out_fd = - 1 then (t2, Returned EXIT_CHILD_FAILURE) else
     let t3 = t2 @ [Dup2 in_fd STDIN_FILENO (dup2_in_ret env)] in
     if dup2_in_ret env = - 1 then (t3, Returned EXIT_CHILD_FAILURE) else
     let t4 = t3 @ [Dup2 out_fd STDOUT_FILENO (dup2_out_ret env)] in
     if dup2_out_ret env = - 1 then (t4, Returned EXIT_CHILD_FAILURE) else
     let t5 = t4 @ [CClose in_fd (close_in_ret env)] in
     if close_in_ret env = - 1 then (t5, Returned EXIT_CHILD_FAILURE) else
     let t6 = t5 @ [CClose out_fd (close_out_ret env)] in
     if close_out_ret env = - 1 then (t6, Returned EXIT_CHILD_FAILURE) else
     let t7 = t6 @ [CWrite (notify_p cp) (write_notify_p_ret env)] in
     if write_notify_p_ret env = - 1 then (t7, Returned EXIT_CHILD_FAILURE) else
     let t8 = t7 @ [CRead (notify_c cp) (read_notify_c_ret env)] in
     if read_notify_c_ret env = - 1 then (t8, Returned EXIT_CHILD_FAILURE) else
     let t9 = t8 @ [CClose (notify_c cp) (close_notify_c_ret env)] in
     if close_notify_c_ret env = - 1 then (t9, Returned EXIT_CHILD_FAILURE) else
     let t10 = t9 @ [CClose (notify_p cp) (close_notify_p_ret env)] in
     if close_notify_p_ret env = - 1 then (t10, Returned EXIT_CHILD_FAILURE) else
     let whitelist_fd = open_whitelist_ret env;
         t11 = t10 @ [Open (whitelist cp) [O_RDONLY, O_CLOEXEC] whitelist_fd] in
     if whitelist_fd = - 1 then (t11, Returned EXIT_CHILD_FAILURE) else
     let t12 = t11 @ [Chdir (jail_path cp) (chdir_ret env)] in
     if chdir_ret env = - 1 then (t12, Returned EXIT_CHILD_FAILURE) else
     let t13 = t12 @ [Chroot ''./'' (chroot_ret env)] in
     if chroot_ret env = - 1 then (t13, Returned EXIT_CHILD_FAILURE) else
     let t14 = t13 @ [Setgid (gid cp) (setgid_ret env)] in
     if setgid_ret env = - 1 then (t14, Returned EXIT_CHILD_FAILURE) else
     let t15 = t14 @ [Setuid (uid cp) (setuid_ret env)] in
     if setuid_ret env = - 1 then (t15, Returned EXIT_CHILD_FAILURE) else
     let t16 = t15 @ [InstallSysCallBlocker (ctx cp) whitelist_fd (installSysCallBlocker_ret env)] in
     if installSysCallBlocker_ret env = - 1 then (t16, Returned EXIT_CHILD_FAILURE) else
     let t17 = t16 @ [Execl (exect_path cp) (execl_ret env)] in
     case execl_ret env of
       None \<Rightarrow> (t17, Replaced (exect_path cp))
     | Some r \<Rightarrow> (t17, Returned EXIT_CHILD_FAILURE))"

subsection \<open>The parent: sandboxExec (lines 162 to 346)\<close>

text \<open>
  The calls of the parent, each with its arguments and, last, the value it returned,
  and its accesses to the fields of the terminator's payload \<open>tp\<close>. The structures
  \<open>CgroupLocs\<close> and \<open>ResLimits\<close> are declared in \<open>resource_limits.h\<close>; the parent only
  passes them on, so their types \<open>'cg\<close> and \<open>'rl\<close> are parameters.
\<close>

datatype ('cg, 'rl) event =
    Eventfd int
  | Malloc nat nat
  | Clone nat "32 word" ChildPayload int
  | Read int int
  | SetResourceLimits int 'rl 'cg int
  | Write int int
  | Kill int int int
  | RemovePidDirs 'cg int int
  | Free nat
  | Close int int
  | Waitpid int "32 word"
  | Store_terminated nat int
  | Seccomp_release nat
  | Load_once nat int
  | Load_done nat int
  | Store_skip nat nat
  | Terminate nat int

text \<open>
  What the parent observes: the value each call returns, and further \<open>wstatus_ret\<close>,
  the status that \<open>waitpid\<close> stored (the program does not test what \<open>waitpid\<close> returns),
  \<open>ctx_addr\<close>, the address of its local variable \<open>ctx\<close>, \<open>ctx_seen\<close>, the value it finds
  there at line 272, \<open>tp_ptr\<close>, the handle that \<open>setResourceLimits\<close> stored in \<open>tp\<close>,
  \<open>tp_once\<close>, the value of \<open>tp -> once\<close> at line 276, \<open>tp_done i\<close>, the value that the
  read number \<open>i\<close> of \<open>tp -> done\<close> finds, and \<open>exceeded_seen\<close>, the value of \<open>exceeded\<close>
  at the \<open>switch\<close>. On every path at most one of the three calls of \<open>kill\<close> and one
  pair of calls of \<open>close\<close> is made, so one field each gives their results.
\<close>

record parent_env =
  eventfd_p_ret :: int
  eventfd_c_ret :: int
  malloc_ret :: nat
  clone_ret :: int
  read_ret :: int
  setResourceLimits_ret :: int
  tp_ptr :: nat
  write_ret :: int
  kill_ret :: int
  removePidDirs_ret :: int
  close_p_ret :: int
  close_c_ret :: int
  wstatus_ret :: "32 word"
  ctx_addr :: nat
  ctx_seen :: nat
  tp_once :: int
  tp_done :: "nat \<Rightarrow> int"
  terminate_ret :: int
  exceeded_seen :: int

text \<open>\<open>sandboxExecFailCleanup\<close> (lines 137 to 151): its calls and its return value.\<close>

definition sandboxExecFailCleanup ::
    "parent_env \<Rightarrow> int \<Rightarrow> int \<Rightarrow> nat \<Rightarrow> ('cg, 'rl) event list \<times> int" where
  "sandboxExecFailCleanup env notify_p' notify_c' child_stack =
    (let t = [Free child_stack, Close notify_p' (close_p_ret env),
              Close notify_c' (close_c_ret env)];
         ret = 0;
         ret = (if close_p_ret env = - 1 then - 1 else ret);
         ret = (if close_c_ret env = - 1 then - 1 else ret)
     in (t, ret))"

text \<open>
  The loop \<open>while (tp -> done == 0);\<close> of line 279. It runs for as long as the reads
  find 0, so it may run forever: then there is no result.
\<close>

partial_function (option) wait_done ::
    "nat \<Rightarrow> (nat \<Rightarrow> int) \<Rightarrow> nat \<Rightarrow> ('cg, 'rl) event list \<Rightarrow> ('cg, 'rl) event list option" where
  "wait_done tp d i t =
    (if d i = 0 then wait_done tp d (Suc i) (t @ [Load_done tp (d i)])
     else Some (t @ [Load_done tp (d i)]))"

declare wait_done.simps [code]

text \<open>The payload that lines 182 to 192 fill in.\<close>

definition child_payload ::
    "parent_env \<Rightarrow> string \<Rightarrow> string \<Rightarrow> string \<Rightarrow> string \<Rightarrow> string \<Rightarrow> 32 word \<Rightarrow> 32 word \<Rightarrow>
     ChildPayload" where
  "child_payload env exect_path' jail_path' input_file' output_file' whitelist' uid' gid' =
     \<lparr>exect_path = exect_path', jail_path = jail_path', input_file = input_file',
      output_file = output_file', whitelist = whitelist', ctx = ctx_addr env,
      notify_c = eventfd_c_ret env, notify_p = eventfd_p_ret env, uid = uid', gid = gid'\<rparr>"

definition sandboxExec ::
    "exceed_codes \<Rightarrow> parent_env \<Rightarrow> string \<Rightarrow> string \<Rightarrow> string \<Rightarrow> string \<Rightarrow> 'cg \<Rightarrow> 'rl \<Rightarrow>
     string \<Rightarrow> 32 word \<Rightarrow> 32 word \<Rightarrow> (('cg, 'rl) event list \<times> sb_result) option" where
  "sandboxExec k env exect_path' jail_path' input_file' output_file' cg_locs res_lims
      whitelist' uid' gid' =
    (let notify_p' = eventfd_p_ret env;
         notify_c' = eventfd_c_ret env;
         child_stack_size = 1024 * 1024;
         child_stack = malloc_ret env;
         t1 = [Eventfd notify_p', Eventfd notify_c', Malloc child_stack_size child_stack] in
     if child_stack = NULL then Some (t1, SB_FAILURE) else
     let cp = child_payload env exect_path' jail_path' input_file' output_file' whitelist'
                uid' gid';
         pid = clone_ret env;
         t2 = t1 @ [Clone (child_stack + child_stack_size) (CLONE_NEWPID OR SIGCHLD) cp pid] in
     if pid = - 1 then
       Some (t2 @ fst (sandboxExecFailCleanup env notify_p' notify_c' child_stack), SB_FAILURE)
     else
     let t3 = t2 @ [Read notify_p' (read_ret env)] in
     if read_ret env = - 1 then
       Some (t3 @ [Kill pid SIGTERM (kill_ret env)]
                @ fst (sandboxExecFailCleanup env notify_p' notify_c' child_stack), SB_FAILURE)
     else
     let tp = tp_ptr env;
         t4 = t3 @ [SetResourceLimits pid res_lims cg_locs (setResourceLimits_ret env)] in
     if setResourceLimits_ret env = - 1 then
       Some (t4 @ [Kill pid SIGTERM (kill_ret env)]
                @ fst (sandboxExecFailCleanup env notify_p' notify_c' child_stack), SB_FAILURE)
     else
     let t5 = t4 @ [Write notify_c' (write_ret env)] in
     if write_ret env = - 1 then
       Some (t5 @ [Kill pid SIGTERM (kill_ret env),
                   RemovePidDirs cg_locs pid (removePidDirs_ret env)]
                @ fst (sandboxExecFailCleanup env notify_p' notify_c' child_stack), SB_FAILURE)
     else
     let t6 = t5 @ [Close notify_p' (close_p_ret env), Close notify_c' (close_c_ret env)];
         wstatus = wstatus_ret env;
         t7 = t6 @ [Waitpid pid wstatus, Store_terminated tp 1, Free child_stack];
         t8 = (if ctx_seen env \<noteq> NULL then t7 @ [Seccomp_release (ctx_seen env)] else t7);
         t9 = t8 @ [Load_once tp (tp_once env)] in
     case (if tp_once env = 1 then wait_done tp (tp_done env) 0 t9
           else Some (t9 @ [Store_skip tp NULL, Terminate tp (terminate_ret env)])) of
       None \<Rightarrow> None
     | Some t10 \<Rightarrow>
         Some (t10 @ [Free tp], classify k wstatus (exceeded_seen env)))"

subsection \<open>Predicates and sample inputs used in the statements\<close>

text \<open>The calls by which the child confines itself and starts the target.\<close>

definition is_Execl :: "child_event \<Rightarrow> bool" where
  "is_Execl e = (case e of Execl p r \<Rightarrow> True | _ \<Rightarrow> False)"

definition is_confinement :: "child_event \<Rightarrow> bool" where
  "is_confinement e =
     (case e of Chdir p r \<Rightarrow> True | Chroot p r \<Rightarrow> True | Setgid g r \<Rightarrow> True
      | Setuid u r \<Rightarrow> True | InstallSysCallBlocker c f r \<Rightarrow> True | Execl p r \<Rightarrow> True
      | _ \<Rightarrow> False)"

text \<open>Calls of the parent that the statements single out.\<close>

definition is_Clone :: "('cg, 'rl) event \<Rightarrow> bool" where
  "is_Clone e = (case e of Clone s f cp r \<Rightarrow> True | _ \<Rightarrow> False)"

definition is_RemovePidDirs :: "('cg, 'rl) event \<Rightarrow> bool" where
  "is_RemovePidDirs e = (case e of RemovePidDirs cg pid r \<Rightarrow> True | _ \<Rightarrow> False)"

text \<open>A choice of values for the enumerators, used for concrete runs.\<close>

definition example_codes :: exceed_codes where
  "example_codes = \<lparr>NO_EXCEED = 0, FATAL_ERROR_EXCEED = 1, MEM_LIM_EXCEED = 2,
                     TIME_LIM_EXCEED = 3, TASK_LIM_EXCEED = 4\<rparr>"

text \<open>A child for which every call succeeds, and its payload.\<close>

definition child_env_ok :: child_env where
  "child_env_ok = \<lparr>open_input_ret = 3, open_output_ret = 4, dup2_in_ret = 0,
     dup2_out_ret = 1, close_in_ret = 0, close_out_ret = 0, write_notify_p_ret = 8,
     read_notify_c_ret = 8, close_notify_c_ret = 0, close_notify_p_ret = 0,
     open_whitelist_ret = 3, chdir_ret = 0, chroot_ret = 0, setgid_ret = 0, setuid_ret = 0,
     installSysCallBlocker_ret = 0, execl_ret = None\<rparr>"

definition example_payload :: ChildPayload where
  "example_payload = \<lparr>exect_path = ''/prog'', jail_path = ''/jail'', input_file = ''in.txt'',
     output_file = ''out.txt'', whitelist = ''whitelist'', ctx = 0, notify_c = 6, notify_p = 5,
     uid = 1000, gid = 1000\<rparr>"

text \<open>
  A parent for which every call succeeds; the child exits with status 0 before the
  terminator fires. Two courses of the field \<open>done\<close>: never set, and set at the third read.
\<close>

definition done_never :: "nat \<Rightarrow> int" where
  "done_never i = 0"

definition done_at_third :: "nat \<Rightarrow> int" where
  "done_at_third i = (if i < 2 then 0 else 1)"

definition parent_env_ok :: parent_env where
  "parent_env_ok = \<lparr>eventfd_p_ret = 3, eventfd_c_ret = 4, malloc_ret = 4096,
     clone_ret = 1234, read_ret = 8, setResourceLimits_ret = 0, tp_ptr = 8192, write_ret = 8,
     kill_ret = 0, removePidDirs_ret = 0, close_p_ret = 0, close_c_ret = 0, wstatus_ret = 0,
     ctx_addr = 12288, ctx_seen = 0, tp_once = 0, tp_done = done_never, terminate_ret = 0,
     exceeded_seen = 0\<rparr>"

section \<open>Properties\<close>

subsection \<open>The wait status\<close>

lemma WIFEXITED_not_WIFSIGNALED: "WIFEXITED s \<Longrightarrow> \<not> WIFSIGNALED s"
proof -
  assume "WIFEXITED s"
  then have "s AND 0x7f = 0"
    by (simp add: WIFEXITED_def WTERMSIG_def uint_0_iff)
  then show ?thesis
    by (simp add: WIFSIGNALED_def)
qed

subsection \<open>Classification\<close>

text \<open>
  Claim C1. The classification after \<open>waitpid\<close>: a child that exited normally with the
  setup-failure status gives \<open>SB_FAILURE\<close>, and so does a child that neither exited nor
  was signaled. In every other case the value of \<open>exceeded\<close> decides: with \<open>NO_EXCEED\<close> a
  signaled child gives \<open>SB_RUNTIME_ERR\<close> and an exited child \<open>SB_OK\<close>;
  \<open>FATAL_ERROR_EXCEED\<close> gives \<open>SB_FAILURE\<close>, \<open>MEM_LIM_EXCEED\<close> gives \<open>SB_MEM_EXCEED\<close>,
  \<open>TIME_LIM_EXCEED\<close> gives \<open>SB_TIME_EXCEED\<close>, \<open>TASK_LIM_EXCEED\<close> gives \<open>SB_TASK_EXCEED\<close>,
  and any other value gives \<open>SB_FAILURE\<close>.
\<close>

theorem classify_cases:
  assumes "codes_distinct k"
  shows "(WIFEXITED ws \<and> WEXITSTATUS ws = EXIT_CHILD_FAILURE \<longrightarrow> classify k ws ex = SB_FAILURE)
    \<and> (\<not> WIFEXITED ws \<and> \<not> WIFSIGNALED ws \<longrightarrow> classify k ws ex = SB_FAILURE)
    \<and> (\<not> (WIFEXITED ws \<and> WEXITSTATUS ws = EXIT_CHILD_FAILURE) \<and> (WIFEXITED ws \<or> WIFSIGNALED ws) \<longrightarrow>
         (ex = NO_EXCEED k \<and> WIFSIGNALED ws \<longrightarrow> classify k ws ex = SB_RUNTIME_ERR)
       \<and> (ex = NO_EXCEED k \<and> WIFEXITED ws \<longrightarrow> classify k ws ex = SB_OK)
       \<and> (ex = FATAL_ERROR_EXCEED k \<longrightarrow> classify k ws ex = SB_FAILURE)
       \<and> (ex = MEM_LIM_EXCEED k \<longrightarrow> classify k ws ex = SB_MEM_EXCEED)
       \<and> (ex = TIME_LIM_EXCEED k \<longrightarrow> classify k ws ex = SB_TIME_EXCEED)
       \<and> (ex = TASK_LIM_EXCEED k \<longrightarrow> classify k ws ex = SB_TASK_EXCEED)
       \<and> (ex \<notin> {NO_EXCEED k, FATAL_ERROR_EXCEED k, MEM_LIM_EXCEED k, TIME_LIM_EXCEED k,
                  TASK_LIM_EXCEED k} \<longrightarrow> classify k ws ex = SB_FAILURE))"
proof -
  have excl: "WIFEXITED ws \<Longrightarrow> \<not> WIFSIGNALED ws"
    by (rule WIFEXITED_not_WIFSIGNALED)
  from assms have d:
    "NO_EXCEED k \<noteq> FATAL_ERROR_EXCEED k" "NO_EXCEED k \<noteq> MEM_LIM_EXCEED k"
    "NO_EXCEED k \<noteq> TIME_LIM_EXCEED k" "NO_EXCEED k \<noteq> TASK_LIM_EXCEED k"
    "FATAL_ERROR_EXCEED k \<noteq> MEM_LIM_EXCEED k" "FATAL_ERROR_EXCEED k \<noteq> TIME_LIM_EXCEED k"
    "FATAL_ERROR_EXCEED k \<noteq> TASK_LIM_EXCEED k" "MEM_LIM_EXCEED k \<noteq> TIME_LIM_EXCEED k"
    "MEM_LIM_EXCEED k \<noteq> TASK_LIM_EXCEED k" "TIME_LIM_EXCEED k \<noteq> TASK_LIM_EXCEED k"
    by (simp_all add: codes_distinct_def)
  show ?thesis
    using excl d unfolding classify_def switch_exceeded_def by auto
qed

theorem classify_cases_witness:
  "codes_distinct example_codes
   \<and> \<not> (WIFEXITED 9 \<and> WEXITSTATUS 9 = EXIT_CHILD_FAILURE) \<and> (WIFEXITED 9 \<or> WIFSIGNALED 9)
   \<and> 2 = MEM_LIM_EXCEED example_codes
   \<and> classify example_codes 9 2 = SB_MEM_EXCEED"
proof -
  have h: "codes_distinct example_codes"
    by (simp add: codes_distinct_def example_codes_def)
  have s: "WIFSIGNALED 9" "\<not> WIFEXITED 9"
    by (simp_all add: WIFSIGNALED_def WIFEXITED_def WTERMSIG_def)
  have m: "2 = MEM_LIM_EXCEED example_codes"
    by (simp add: example_codes_def)
  from classify_cases [OF h, of 9 2] s m h show ?thesis
    by blast
qed

text \<open>
  Claim C3, which says that the setup-failure status lies outside the range 0 to 125 of
  the exit statuses of the user program, so that no normal exit of the user program is
  classified as a sandbox failure. It fails: the status is 1, and the wait status
  \<open>0x100\<close> of a program that called \<open>exit(1)\<close> is classified \<open>SB_FAILURE\<close> although
  no limit was exceeded.
\<close>

theorem sentinel_in_user_range_counterexample:
  "0 \<le> EXIT_CHILD_FAILURE \<and> EXIT_CHILD_FAILURE \<le> 125
   \<and> WIFEXITED 0x100 \<and> WEXITSTATUS 0x100 = EXIT_CHILD_FAILURE
   \<and> classify example_codes 0x100 (NO_EXCEED example_codes) = SB_FAILURE"
  by (simp add: EXIT_CHILD_FAILURE_def WIFEXITED_def WTERMSIG_def WEXITSTATUS_def classify_def
        switch_exceeded_def)

text \<open>
  Claim C3, amended. The setup-failure status is 1. When no limit was exceeded, a child
  that exited normally is classified \<open>SB_FAILURE\<close> exactly when its exit status is 1,
  and \<open>SB_OK\<close> for every other exit status.
\<close>

theorem normal_exit_classification:
  assumes "WIFEXITED ws"
  shows "EXIT_CHILD_FAILURE = 1
    \<and> (classify k ws (NO_EXCEED k) = SB_FAILURE \<longleftrightarrow> WEXITSTATUS ws = 1)
    \<and> (WEXITSTATUS ws \<noteq> 1 \<longrightarrow> classify k ws (NO_EXCEED k) = SB_OK)"
  using assms WIFEXITED_not_WIFSIGNALED [OF assms]
  by (simp add: classify_def switch_exceeded_def EXIT_CHILD_FAILURE_def)

text \<open>
  A program that exits with status 2 is classified \<open>SB_OK\<close>.
\<close>

theorem normal_exit_classification_witness:
  "WIFEXITED 0x200 \<and> WEXITSTATUS 0x200 = 2
   \<and> classify example_codes 0x200 (NO_EXCEED example_codes) = SB_OK"
proof -
  have h: "WIFEXITED 0x200"
    by (simp add: WIFEXITED_def WTERMSIG_def)
  have s: "WEXITSTATUS 0x200 = 2"
    by (simp add: WEXITSTATUS_def)
  from normal_exit_classification [OF h, of example_codes] h s show ?thesis
    by simp
qed

subsection \<open>The child\<close>

text \<open>
  Claim C2. In every run of \<open>childFunc\<close> that reaches \<open>execl\<close>, the calls before it end
  with \<open>chdir\<close> into the jail, \<open>chroot\<close>, \<open>setgid\<close>, \<open>setuid\<close> and the installation of the
  syscall filter, in this order, each of them successful and none of them made earlier.
  If one of these five steps fails, the child returns \<open>EXIT_CHILD_FAILURE\<close> and makes no
  call of \<open>execl\<close>. A child that was replaced by the target did call \<open>execl\<close>.
\<close>

theorem childFunc_confined_before_exec:
  assumes "childFunc env cp = (t, r)"
  shows "((\<exists>e \<in> set t. is_Execl e) \<longrightarrow>
           (\<exists>pre wfd r1 r2 r3 r4 r5 re.
              t = pre @ [Chdir (jail_path cp) r1, Chroot ''./'' r2, Setgid (gid cp) r3,
                         Setuid (uid cp) r4, InstallSysCallBlocker (ctx cp) wfd r5,
                         Execl (exect_path cp) re]
              \<and> r1 \<noteq> - 1 \<and> r2 \<noteq> - 1 \<and> r3 \<noteq> - 1 \<and> r4 \<noteq> - 1 \<and> r5 \<noteq> - 1
              \<and> (\<forall>e \<in> set pre. \<not> is_confinement e)))
       \<and> (chdir_ret env = - 1 \<or> chroot_ret env = - 1 \<or> setgid_ret env = - 1
            \<or> setuid_ret env = - 1 \<or> installSysCallBlocker_ret env = - 1 \<longrightarrow>
           r = Returned EXIT_CHILD_FAILURE \<and> (\<forall>e \<in> set t. \<not> is_Execl e))
       \<and> (\<forall>p. r = Replaced p \<longrightarrow> (\<exists>e \<in> set t. is_Execl e))"
  using assms
  by (auto simp: childFunc_def Let_def is_Execl_def is_confinement_def
           split: if_splits option.splits)

text \<open>
  Two runs: one in which every call succeeds and the child is replaced by the target,
  one in which \<open>chroot\<close> fails.
\<close>

theorem childFunc_confined_before_exec_witness:
  "childFunc child_env_ok example_payload =
     ([Open ''in.txt'' [O_RDONLY] 3, Open ''out.txt'' [O_WRONLY, O_CREAT, O_TRUNC] 4,
       Dup2 3 0 0, Dup2 4 1 1, CClose 3 0, CClose 4 0, CWrite 5 8, CRead 6 8, CClose 6 0,
       CClose 5 0, Open ''whitelist'' [O_RDONLY, O_CLOEXEC] 3, Chdir ''/jail'' 0,
       Chroot ''./'' 0, Setgid 1000 0, Setuid 1000 0, InstallSysCallBlocker 0 3 0,
       Execl ''/prog'' None], Replaced ''/prog'')
   \<and> is_Execl (Execl ''/prog'' None)
   \<and> chroot_ret (child_env_ok\<lparr>chroot_ret := - 1\<rparr>) = - 1
   \<and> childFunc (child_env_ok\<lparr>chroot_ret := - 1\<rparr>) example_payload =
     ([Open ''in.txt'' [O_RDONLY] 3, Open ''out.txt'' [O_WRONLY, O_CREAT, O_TRUNC] 4,
       Dup2 3 0 0, Dup2 4 1 1, CClose 3 0, CClose 4 0, CWrite 5 8, CRead 6 8, CClose 6 0,
       CClose 5 0, Open ''whitelist'' [O_RDONLY, O_CLOEXEC] 3, Chdir ''/jail'' 0,
       Chroot ''./'' (- 1)], Returned 1)"
proof -
  have a: "childFunc child_env_ok example_payload =
     ([Open ''in.txt'' [O_RDONLY] 3, Open ''out.txt'' [O_WRONLY, O_CREAT, O_TRUNC] 4,
       Dup2 3 0 0, Dup2 4 1 1, CClose 3 0, CClose 4 0, CWrite 5 8, CRead 6 8, CClose 6 0,
       CClose 5 0, Open ''whitelist'' [O_RDONLY, O_CLOEXEC] 3, Chdir ''/jail'' 0,
       Chroot ''./'' 0, Setgid 1000 0, Setuid 1000 0, InstallSysCallBlocker 0 3 0,
       Execl ''/prog'' None], Replaced ''/prog'')"
    by (simp add: childFunc_def child_env_ok_def example_payload_def Let_def
          EXIT_CHILD_FAILURE_def STDIN_FILENO_def STDOUT_FILENO_def)
  have b: "childFunc (child_env_ok\<lparr>chroot_ret := - 1\<rparr>) example_payload =
     ([Open ''in.txt'' [O_RDONLY] 3, Open ''out.txt'' [O_WRONLY, O_CREAT, O_TRUNC] 4,
       Dup2 3 0 0, Dup2 4 1 1, CClose 3 0, CClose 4 0, CWrite 5 8, CRead 6 8, CClose 6 0,
       CClose 5 0, Open ''whitelist'' [O_RDONLY, O_CLOEXEC] 3, Chdir ''/jail'' 0,
       Chroot ''./'' (- 1)], Returned 1)"
    by (simp add: childFunc_def child_env_ok_def example_payload_def Let_def
          EXIT_CHILD_FAILURE_def STDIN_FILENO_def STDOUT_FILENO_def)
  have c: "is_Execl (Execl ''/prog'' None)"
    by (simp add: is_Execl_def)
  have d: "chroot_ret (child_env_ok\<lparr>chroot_ret := - 1\<rparr>) = - 1"
    by simp
  from childFunc_confined_before_exec [OF a] childFunc_confined_before_exec [OF b] a b c d
  show ?thesis by simp
qed

text \<open>
  \<open>childFunc\<close> ends in one of two ways: it returns \<open>EXIT_CHILD_FAILURE\<close>, or the
  target binary has replaced it.
\<close>

lemma childFunc_result:
  "snd (childFunc env cp) = Returned EXIT_CHILD_FAILURE
   \<or> snd (childFunc env cp) = Replaced (exect_path cp)"
  by (simp add: childFunc_def Let_def split: option.splits)

subsection \<open>The loop that waits for the terminator\<close>

text \<open>
  If the loop ends, it has read 0 some number of times and then a value other than 0;
  if such a value ever comes, the loop ends at the first one; if none comes, it does not
  end.
\<close>

lemma wait_done_Some:
  "wait_done tp d i t = Some t' \<Longrightarrow>
     \<exists>n. d (i + n) \<noteq> 0 \<and> (\<forall>j<n. d (i + j) = 0) \<and>
         t' = t @ map (\<lambda>j. Load_done tp (d j)) [i..<Suc (i + n)]"
proof (induction rule: wait_done.raw_induct [rotated 1, consumes 1])
  case (1 wd tp d i t t')
  show ?case
  proof (cases "d i = 0")
    case False
    with 1(2) have "t' = t @ [Load_done tp (d i)]" by simp
    with False show ?thesis by (intro exI [of _ 0]) simp
  next
    case True
    with 1(2) have "wd tp d (Suc i) (t @ [Load_done tp (d i)]) = Some t'" by simp
    from 1(1) [OF this] obtain n where n: "d (Suc i + n) \<noteq> 0" "\<forall>j<n. d (Suc i + j) = 0"
      "t' = (t @ [Load_done tp (d i)]) @ map (\<lambda>j. Load_done tp (d j)) [Suc i..<Suc (Suc i + n)]"
      by blast
    have "\<forall>j<Suc n. d (i + j) = 0"
    proof (intro allI impI)
      fix j assume "j < Suc n"
      then show "d (i + j) = 0" using True n(2) by (cases j) auto
    qed
    moreover have "[i..<Suc (i + Suc n)] = i # [Suc i..<Suc (Suc i + n)]"
      by (simp add: upt_conv_Cons)
    ultimately show ?thesis using n(1,3)
      by (intro exI [of _ "Suc n"]) simp
  qed
qed

lemma wait_done_returns:
  "d (i + n) \<noteq> 0 \<Longrightarrow> \<forall>j<n. d (i + j) = 0 \<Longrightarrow>
     wait_done tp d i t = Some (t @ map (\<lambda>j. Load_done tp (d j)) [i..<Suc (i + n)])"
proof (induction n arbitrary: i t)
  case 0
  then show ?case by (subst wait_done.simps) simp
next
  case (Suc n)
  from Suc.prems(2) have z: "d i = 0" by (metis add.right_neutral zero_less_Suc)
  have "d (Suc i + n) \<noteq> 0" using Suc.prems(1) by simp
  moreover have "\<forall>j<n. d (Suc i + j) = 0" using Suc.prems(2) by (metis Suc_less_eq add_Suc_shift)
  ultimately have "wait_done tp d (Suc i) (t @ [Load_done tp (d i)]) =
     Some ((t @ [Load_done tp (d i)]) @ map (\<lambda>j. Load_done tp (d j)) [Suc i..<Suc (Suc i + n)])"
    by (rule Suc.IH)
  moreover have "[i..<Suc (i + Suc n)] = i # [Suc i..<Suc (Suc i + n)]"
    by (simp add: upt_conv_Cons)
  ultimately show ?case using z by (subst wait_done.simps) simp
qed

lemma wait_done_never: "\<forall>j. d j = 0 \<Longrightarrow> wait_done tp d i t = None"
proof (rule ccontr)
  assume a: "\<forall>j. d j = 0" and "wait_done tp d i t \<noteq> None"
  then obtain t' where "wait_done tp d i t = Some t'" by auto
  from wait_done_Some [OF this] a show False by auto
qed

lemma loads_zero:
  "\<forall>j<n. d j = 0 \<Longrightarrow>
     map (\<lambda>j. Load_done tp (d j)) [0..<Suc n] = replicate n (Load_done tp 0) @ [Load_done tp (d n)]"
proof -
  assume z: "\<forall>j<n. d j = 0"
  have "map (\<lambda>j. Load_done tp (d j)) [0..<n] = replicate n (Load_done tp 0)"
    using z by (simp add: list_eq_iff_nth_eq)
  then show ?thesis by simp
qed

lemma wait_done_first_nonzero:
  assumes "d n \<noteq> 0" and "\<forall>j<n. d j = 0"
  shows "wait_done tp d 0 t = Some (t @ replicate n (Load_done tp 0) @ [Load_done tp (d n)])"
  using wait_done_returns [of d 0 n tp t] assms loads_zero [of n d tp] by simp

subsection \<open>The paths through sandboxExec\<close>

text \<open>
  Every run of \<open>sandboxExec\<close> that returns takes one of seven paths: the allocation of
  the stack fails; \<open>clone\<close> fails; the read of the child's token fails; the
  installation of the limits fails; the write of the parent's token fails; the child is
  reaped and the terminator is cancelled; the child is reaped and the terminator, which
  had fired, is awaited.
\<close>

lemma sandboxExec_paths:
  fixes env :: parent_env and ep jp inp outp wl :: string and u g :: "32 word"
    and cg :: 'cg and rl :: 'rl
  defines "p \<equiv> eventfd_p_ret env" and "c \<equiv> eventfd_c_ret env" and "st \<equiv> malloc_ret env"
    and "pid \<equiv> clone_ret env" and "tp \<equiv> tp_ptr env"
  defines "t1 \<equiv> [Eventfd p, Eventfd c, Malloc (1024 * 1024) st]"
  defines "t2 \<equiv> t1 @ [Clone (st + 1024 * 1024) (CLONE_NEWPID OR SIGCHLD)
                         (child_payload env ep jp inp outp wl u g) pid]"
  defines "t3 \<equiv> t2 @ [Read p (read_ret env)]"
  defines "t4 \<equiv> t3 @ [SetResourceLimits pid rl cg (setResourceLimits_ret env)]"
  defines "t5 \<equiv> t4 @ [Write c (write_ret env)]"
  defines "cleanup \<equiv> [Free st, Close p (close_p_ret env), Close c (close_c_ret env)]"
  defines "t9 \<equiv> t5 @ [Close p (close_p_ret env), Close c (close_c_ret env),
                       Waitpid pid (wstatus_ret env), Store_terminated tp 1, Free st]
                    @ (if ctx_seen env \<noteq> NULL then [Seccomp_release (ctx_seen env)] else [])
                    @ [Load_once tp (tp_once env)]"
  assumes run: "sandboxExec k env ep jp inp outp cg rl wl u g = Some (t, r)"
  shows "(st = NULL \<and> t = t1 \<and> r = SB_FAILURE)
    \<or> (st \<noteq> NULL \<and> pid = - 1 \<and> t = t2 @ cleanup \<and> r = SB_FAILURE)
    \<or> (st \<noteq> NULL \<and> pid \<noteq> - 1 \<and> read_ret env = - 1
         \<and> t = t3 @ [Kill pid SIGTERM (kill_ret env)] @ cleanup \<and> r = SB_FAILURE)
    \<or> (st \<noteq> NULL \<and> pid \<noteq> - 1 \<and> read_ret env \<noteq> - 1 \<and> setResourceLimits_ret env = - 1
         \<and> t = t4 @ [Kill pid SIGTERM (kill_ret env)] @ cleanup \<and> r = SB_FAILURE)
    \<or> (st \<noteq> NULL \<and> pid \<noteq> - 1 \<and> read_ret env \<noteq> - 1 \<and> setResourceLimits_ret env \<noteq> - 1
         \<and> write_ret env = - 1
         \<and> t = t5 @ [Kill pid SIGTERM (kill_ret env), RemovePidDirs cg pid (removePidDirs_ret env)]
                 @ cleanup
         \<and> r = SB_FAILURE)
    \<or> (st \<noteq> NULL \<and> pid \<noteq> - 1 \<and> read_ret env \<noteq> - 1 \<and> setResourceLimits_ret env \<noteq> - 1
         \<and> write_ret env \<noteq> - 1 \<and> tp_once env \<noteq> 1
         \<and> t = t9 @ [Store_skip tp NULL, Terminate tp (terminate_ret env), Free tp]
         \<and> r = classify k (wstatus_ret env) (exceeded_seen env))
    \<or> (st \<noteq> NULL \<and> pid \<noteq> - 1 \<and> read_ret env \<noteq> - 1 \<and> setResourceLimits_ret env \<noteq> - 1
         \<and> write_ret env \<noteq> - 1 \<and> tp_once env = 1
         \<and> (\<exists>n. tp_done env n \<noteq> 0 \<and> (\<forall>j<n. tp_done env j = 0)
               \<and> t = t9 @ replicate n (Load_done tp 0) @ [Load_done tp (tp_done env n), Free tp])
         \<and> r = classify k (wstatus_ret env) (exceeded_seen env))"
proof -
  note defs = p_def c_def st_def pid_def tp_def t1_def t2_def t3_def t4_def t5_def cleanup_def
    t9_def
  note ev = sandboxExec_def Let_def sandboxExecFailCleanup_def
  consider (at_malloc) "st = NULL"
    | (at_clone) "st \<noteq> NULL" "pid = - 1"
    | (at_read) "st \<noteq> NULL" "pid \<noteq> - 1" "read_ret env = - 1"
    | (at_limits) "st \<noteq> NULL" "pid \<noteq> - 1" "read_ret env \<noteq> - 1" "setResourceLimits_ret env = - 1"
    | (at_write) "st \<noteq> NULL" "pid \<noteq> - 1" "read_ret env \<noteq> - 1" "setResourceLimits_ret env \<noteq> - 1"
        "write_ret env = - 1"
    | (at_cancel) "st \<noteq> NULL" "pid \<noteq> - 1" "read_ret env \<noteq> - 1" "setResourceLimits_ret env \<noteq> - 1"
        "write_ret env \<noteq> - 1" "tp_once env \<noteq> 1"
    | (at_fired) "st \<noteq> NULL" "pid \<noteq> - 1" "read_ret env \<noteq> - 1" "setResourceLimits_ret env \<noteq> - 1"
        "write_ret env \<noteq> - 1" "tp_once env = 1"
    by blast
  then show ?thesis
  proof cases
    case at_malloc
    with run show ?thesis unfolding defs by (simp add: ev)
  next
    case at_clone
    with run show ?thesis unfolding defs by (simp add: ev)
  next
    case at_read
    with run show ?thesis unfolding defs by (simp add: ev)
  next
    case at_limits
    with run show ?thesis unfolding defs by (simp add: ev)
  next
    case at_write
    with run show ?thesis unfolding defs by (simp add: ev)
  next
    case at_cancel
    with run show ?thesis unfolding defs by (cases "ctx_seen env = NULL") (auto simp: ev)
  next
    case at_fired
    with run obtain t' where w: "wait_done tp (tp_done env) 0 t9 = Some t'"
      and t: "t = t' @ [Free tp]" and r: "r = classify k (wstatus_ret env) (exceeded_seen env)"
      unfolding defs by (cases "ctx_seen env = NULL") (auto simp: ev split: option.splits)
    from wait_done_Some [OF w] obtain n where n: "tp_done env n \<noteq> 0" "\<forall>j<n. tp_done env j = 0"
      "t' = t9 @ map (\<lambda>j. Load_done tp (tp_done env j)) [0..<Suc n]"
      by auto
    from n(2) have "map (\<lambda>j. Load_done tp (tp_done env j)) [0..<Suc n]
        = replicate n (Load_done tp 0) @ [Load_done tp (tp_done env n)]"
      by (rule loads_zero)
    with n t have "tp_done env n \<noteq> 0 \<and> (\<forall>j<n. tp_done env j = 0)
        \<and> t = t9 @ replicate n (Load_done tp 0) @ [Load_done tp (tp_done env n), Free tp]"
      by simp
    then have "\<exists>n. tp_done env n \<noteq> 0 \<and> (\<forall>j<n. tp_done env j = 0)
        \<and> t = t9 @ replicate n (Load_done tp 0) @ [Load_done tp (tp_done env n), Free tp]"
      by blast
    with at_fired r show ?thesis by blast
  qed
qed

text \<open>
  After a successful handshake, \<open>sandboxExec\<close> returns if the terminator has not fired
  or sets \<open>done\<close> at some time, and what it returns is the classification of the wait
  status.
\<close>

lemma sandboxExec_returns:
  assumes "malloc_ret env \<noteq> NULL" and "clone_ret env \<noteq> - 1" and "read_ret env \<noteq> - 1"
    and "setResourceLimits_ret env \<noteq> - 1" and "write_ret env \<noteq> - 1"
    and "tp_once env \<noteq> 1 \<or> (\<exists>n. tp_done env n \<noteq> 0)"
  shows "\<exists>t. sandboxExec k env ep jp inp outp cg rl wl u g =
           Some (t, classify k (wstatus_ret env) (exceeded_seen env))"
proof (cases "tp_once env = 1")
  case False
  with assms show ?thesis by (simp add: sandboxExec_def Let_def)
next
  case True
  with assms(6) have "\<exists>n. tp_done env n \<noteq> 0" by simp
  then obtain n where n: "tp_done env n \<noteq> 0" "\<forall>j<n. \<not> tp_done env j \<noteq> 0"
    using exists_least_iff [of "\<lambda>n. tp_done env n \<noteq> 0"] by blast
  then have "\<forall>j<n. tp_done env j = 0" by simp
  with n(1) True assms(1-5) show ?thesis
    by (simp add: sandboxExec_def Let_def wait_done_first_nonzero)
qed

lemma sandboxExec_outcome:
  assumes "sandboxExec k env ep jp inp outp cg rl wl u g = Some (t, r)"
    and "malloc_ret env \<noteq> NULL" and "clone_ret env \<noteq> - 1" and "read_ret env \<noteq> - 1"
    and "setResourceLimits_ret env \<noteq> - 1" and "write_ret env \<noteq> - 1"
  shows "r = classify k (wstatus_ret env) (exceeded_seen env)"
  using sandboxExec_paths [OF assms(1)] assms(2-) by (elim disjE conjE exE) simp_all

text \<open>
  The definitions that a concrete run unfolds.
\<close>

lemmas run_defs = sandboxExec_def Let_def sandboxExecFailCleanup_def child_payload_def
  parent_env_ok_def example_codes_def NULL_def SIGTERM_def CLONE_NEWPID_def SIGCHLD_def
  classify_def switch_exceeded_def WIFEXITED_def WTERMSIG_def WEXITSTATUS_def WIFSIGNALED_def EXIT_CHILD_FAILURE_def

subsection \<open>Creation of the child\<close>

text \<open>
  Claim C9. When the stack was allocated, the fourth call of the parent is \<open>clone\<close>
  with the flags \<open>CLONE_NEWPID | SIGCHLD\<close> and nothing else, and it is the only call of
  \<open>clone\<close>; when the allocation failed, there is no such call. If \<open>clone\<close> fails,
  the parent frees the stack, closes both descriptors of the channel and returns
  \<open>SB_FAILURE\<close>.
\<close>

theorem clone_flags_and_failure:
  "(\<forall>t r. sandboxExec k env ep jp inp outp cg rl wl u g = Some (t, r) \<and> malloc_ret env \<noteq> NULL \<longrightarrow>
      (\<exists>rest. t = [Eventfd (eventfd_p_ret env), Eventfd (eventfd_c_ret env),
                    Malloc (1024 * 1024) (malloc_ret env),
                    Clone (malloc_ret env + 1024 * 1024) (CLONE_NEWPID OR SIGCHLD)
                      (child_payload env ep jp inp outp wl u g) (clone_ret env)] @ rest
             \<and> (\<forall>e \<in> set rest. \<not> is_Clone e)))
   \<and> (\<forall>t r. sandboxExec k env ep jp inp outp cg rl wl u g = Some (t, r) \<and> malloc_ret env = NULL \<longrightarrow>
      (\<forall>e \<in> set t. \<not> is_Clone e))
   \<and> (malloc_ret env \<noteq> NULL \<and> clone_ret env = - 1 \<longrightarrow>
        sandboxExec k env ep jp inp outp cg rl wl u g =
          Some ([Eventfd (eventfd_p_ret env), Eventfd (eventfd_c_ret env),
                 Malloc (1024 * 1024) (malloc_ret env),
                 Clone (malloc_ret env + 1024 * 1024) (CLONE_NEWPID OR SIGCHLD)
                   (child_payload env ep jp inp outp wl u g) (- 1),
                 Free (malloc_ret env),
                 Close (eventfd_p_ret env) (close_p_ret env),
                 Close (eventfd_c_ret env) (close_c_ret env)], SB_FAILURE))
   \<and> CLONE_NEWPID OR SIGCHLD = 0x20000011"
proof (intro conjI allI impI)
  fix t r
  assume a: "sandboxExec k env ep jp inp outp cg rl wl u g = Some (t, r) \<and> malloc_ret env \<noteq> NULL"
  then have run: "sandboxExec k env ep jp inp outp cg rl wl u g = Some (t, r)" and m: "malloc_ret env \<noteq> NULL"
    by simp_all
  from sandboxExec_paths [OF run] m
  show "\<exists>rest. t = [Eventfd (eventfd_p_ret env), Eventfd (eventfd_c_ret env),
                    Malloc (1024 * 1024) (malloc_ret env),
                    Clone (malloc_ret env + 1024 * 1024) (CLONE_NEWPID OR SIGCHLD)
                      (child_payload env ep jp inp outp wl u g) (clone_ret env)] @ rest
             \<and> (\<forall>e \<in> set rest. \<not> is_Clone e)"
    by (elim disjE conjE exE) (auto simp: is_Clone_def)
next
  fix t r
  assume a: "sandboxExec k env ep jp inp outp cg rl wl u g = Some (t, r) \<and> malloc_ret env = NULL"
  then show "\<forall>e \<in> set t. \<not> is_Clone e"
    by (auto simp: sandboxExec_def Let_def is_Clone_def)
next
  assume "malloc_ret env \<noteq> NULL \<and> clone_ret env = - 1"
  then show "sandboxExec k env ep jp inp outp cg rl wl u g =
          Some ([Eventfd (eventfd_p_ret env), Eventfd (eventfd_c_ret env),
                 Malloc (1024 * 1024) (malloc_ret env),
                 Clone (malloc_ret env + 1024 * 1024) (CLONE_NEWPID OR SIGCHLD)
                   (child_payload env ep jp inp outp wl u g) (- 1),
                 Free (malloc_ret env),
                 Close (eventfd_p_ret env) (close_p_ret env),
                 Close (eventfd_c_ret env) (close_c_ret env)], SB_FAILURE)"
    by (simp add: sandboxExec_def Let_def sandboxExecFailCleanup_def)
next
  show "CLONE_NEWPID OR SIGCHLD = 0x20000011"
    by (simp add: CLONE_NEWPID_def SIGCHLD_def)
qed

text \<open>
  A run in which \<open>clone\<close> fails.
\<close>

theorem clone_flags_and_failure_witness:
  "malloc_ret (parent_env_ok\<lparr>clone_ret := - 1\<rparr>) \<noteq> NULL
   \<and> clone_ret (parent_env_ok\<lparr>clone_ret := - 1\<rparr>) = - 1
   \<and> sandboxExec example_codes (parent_env_ok\<lparr>clone_ret := - 1\<rparr>)
        ''/prog'' ''/jail'' ''in.txt'' ''out.txt'' ''/cg'' (1000::nat) ''whitelist'' 1000 1000 =
     Some ([Eventfd 3, Eventfd 4, Malloc 1048576 4096,
            Clone 1052672 0x20000011
              \<lparr>exect_path = ''/prog'', jail_path = ''/jail'', input_file = ''in.txt'',
               output_file = ''out.txt'', whitelist = ''whitelist'', ctx = 12288,
               notify_c = 4, notify_p = 3, uid = 1000, gid = 1000\<rparr> (- 1),
            Free 4096, Close 3 0, Close 4 0], SB_FAILURE)"
  using clone_flags_and_failure [where env = "parent_env_ok\<lparr>clone_ret := - 1\<rparr>"
      and k = example_codes and ep = "''/prog''" and jp = "''/jail''"
      and inp = "''in.txt''" and outp = "''out.txt''" and cg = "''/cg''" and rl = "1000::nat"
      and wl = "''whitelist''" and u = 1000 and g = 1000]
  by (simp add: parent_env_ok_def NULL_def child_payload_def)

text \<open>
  Claim C6, which says that the parent returns \<open>SB_FAILURE\<close> without creating the
  child when the creation of the channel fails. The code does not test what \<open>eventfd\<close>
  returns. In this run the first \<open>eventfd\<close> fails, and the parent still calls \<open>clone\<close>,
  which creates the child 1234 with the descriptor \<open>-1\<close> in its payload; only the read
  from that descriptor fails, and the parent then kills the child and returns
  \<open>SB_FAILURE\<close>.
\<close>

theorem eventfd_failure_still_clones:
  "sandboxExec example_codes
      (parent_env_ok\<lparr>eventfd_p_ret := - 1, read_ret := - 1, close_p_ret := - 1\<rparr>)
      ''/prog'' ''/jail'' ''in.txt'' ''out.txt'' ''/cg'' (1000::nat) ''whitelist'' 1000 1000 =
     Some ([Eventfd (- 1), Eventfd 4, Malloc 1048576 4096,
            Clone 1052672 0x20000011
              \<lparr>exect_path = ''/prog'', jail_path = ''/jail'', input_file = ''in.txt'',
               output_file = ''out.txt'', whitelist = ''whitelist'', ctx = 12288,
               notify_c = 4, notify_p = - 1, uid = 1000, gid = 1000\<rparr> 1234,
            Read (- 1) (- 1), Kill 1234 15 0, Free 4096, Close (- 1) (- 1), Close 4 0],
           SB_FAILURE)"
  by (simp add: run_defs)

subsection \<open>The channel\<close>

text \<open>
  Claim C5, which says that both descriptors of the channel are closed on every return
  path, the failed allocation of the stack included. In this run both calls of
  \<open>eventfd\<close> succeed and \<open>malloc\<close> returns the null pointer: the parent returns
  \<open>SB_FAILURE\<close> at once, and neither descriptor 3 nor descriptor 4 is closed.
\<close>

theorem malloc_failure_leaves_channel_open:
  "sandboxExec example_codes (parent_env_ok\<lparr>malloc_ret := NULL\<rparr>) ''/prog'' ''/jail'' ''in.txt''
      ''out.txt'' ''/cg'' (1000::nat) ''whitelist'' 1000 1000 =
     Some ([Eventfd 3, Eventfd 4, Malloc 1048576 0], SB_FAILURE)"
  by (simp add: run_defs)

text \<open>
  On every other path that returns, the parent calls \<open>close\<close> on both descriptors.
\<close>

lemma channel_closed_unless_malloc_fails:
  assumes run: "sandboxExec k env ep jp inp outp cg rl wl u g = Some (t, r)"
    and m: "malloc_ret env \<noteq> NULL"
  shows "Close (eventfd_p_ret env) (close_p_ret env) \<in> set t
       \<and> Close (eventfd_c_ret env) (close_c_ret env) \<in> set t"
  using sandboxExec_paths [OF run] m
  by (elim disjE conjE exE) simp_all

subsection \<open>Failure of the write of the go-token\<close>

text \<open>
  Claim C7. If the write of the token to the child's end of the channel fails after the
  limits were installed, the parent sends \<open>SIGTERM\<close> to the child, calls \<open>removePidDirs\<close>
  for the child's pid, frees the stack, closes both descriptors of the channel, and
  returns \<open>SB_FAILURE\<close>: these are its calls, in this order, and there are no others.
\<close>

theorem write_failure_aborts:
  assumes "malloc_ret env \<noteq> NULL" and "clone_ret env \<noteq> - 1" and "read_ret env \<noteq> - 1"
    and "setResourceLimits_ret env \<noteq> - 1" and "write_ret env = - 1"
  shows "sandboxExec k env ep jp inp outp cg rl wl u g =
    Some ([Eventfd (eventfd_p_ret env), Eventfd (eventfd_c_ret env),
           Malloc (1024 * 1024) (malloc_ret env),
           Clone (malloc_ret env + 1024 * 1024) (CLONE_NEWPID OR SIGCHLD)
             (child_payload env ep jp inp outp wl u g) (clone_ret env),
           Read (eventfd_p_ret env) (read_ret env),
           SetResourceLimits (clone_ret env) rl cg (setResourceLimits_ret env),
           Write (eventfd_c_ret env) (- 1),
           Kill (clone_ret env) SIGTERM (kill_ret env),
           RemovePidDirs cg (clone_ret env) (removePidDirs_ret env),
           Free (malloc_ret env),
           Close (eventfd_p_ret env) (close_p_ret env),
           Close (eventfd_c_ret env) (close_c_ret env)], SB_FAILURE)"
  using assms by (simp add: sandboxExec_def Let_def sandboxExecFailCleanup_def)

text \<open>
  A run in which the write fails, and \<open>kill\<close> fails too.
\<close>

theorem write_failure_aborts_witness:
  "malloc_ret (parent_env_ok\<lparr>write_ret := - 1, kill_ret := - 1\<rparr>) \<noteq> NULL
   \<and> clone_ret (parent_env_ok\<lparr>write_ret := - 1, kill_ret := - 1\<rparr>) \<noteq> - 1
   \<and> read_ret (parent_env_ok\<lparr>write_ret := - 1, kill_ret := - 1\<rparr>) \<noteq> - 1
   \<and> setResourceLimits_ret (parent_env_ok\<lparr>write_ret := - 1, kill_ret := - 1\<rparr>) \<noteq> - 1
   \<and> write_ret (parent_env_ok\<lparr>write_ret := - 1, kill_ret := - 1\<rparr>) = - 1
   \<and> sandboxExec example_codes (parent_env_ok\<lparr>write_ret := - 1, kill_ret := - 1\<rparr>)
        ''/prog'' ''/jail'' ''in.txt'' ''out.txt'' ''/cg'' (1000::nat) ''whitelist'' 1000 1000 =
     Some ([Eventfd 3, Eventfd 4, Malloc 1048576 4096,
            Clone 1052672 0x20000011
              \<lparr>exect_path = ''/prog'', jail_path = ''/jail'', input_file = ''in.txt'',
               output_file = ''out.txt'', whitelist = ''whitelist'', ctx = 12288,
               notify_c = 4, notify_p = 3, uid = 1000, gid = 1000\<rparr> 1234,
            Read 3 8, SetResourceLimits 1234 1000 ''/cg'' 0, Write 4 (- 1),
            Kill 1234 15 (- 1), RemovePidDirs ''/cg'' 1234 0, Free 4096, Close 3 0, Close 4 0],
           SB_FAILURE)"
  using write_failure_aborts [where env = "parent_env_ok\<lparr>write_ret := - 1, kill_ret := - 1\<rparr>"
      and k = example_codes and ep = "''/prog''" and jp = "''/jail''"
      and inp = "''in.txt''" and outp = "''out.txt''" and cg = "''/cg''" and rl = "1000::nat"
      and wl = "''whitelist''" and u = 1000 and g = 1000]
  by (simp add: parent_env_ok_def NULL_def child_payload_def SIGTERM_def CLONE_NEWPID_def
        SIGCHLD_def)

subsection \<open>The control-group directories\<close>

text \<open>
  Among the runs that return, the parent calls \<open>removePidDirs\<close> on one path only, the
  one on which the write of its token fails after the limits were installed, and it
  calls it once, for the child's pid. On every other path, successful completion
  included, it leaves the directories to the helpers \<open>setResourceLimits\<close> and
  \<open>terminate\<close>, which are not among the sources; what these do to the directories is
  not modelled.
\<close>

lemma removePidDirs_only_after_failed_write:
  assumes run: "sandboxExec k env ep jp inp outp cg rl wl u g = Some (t, r)"
  shows "((\<exists>e \<in> set t. is_RemovePidDirs e) \<longleftrightarrow>
            malloc_ret env \<noteq> NULL \<and> clone_ret env \<noteq> - 1 \<and> read_ret env \<noteq> - 1
            \<and> setResourceLimits_ret env \<noteq> - 1 \<and> write_ret env = - 1)
       \<and> (\<forall>e \<in> set t. is_RemovePidDirs e \<longrightarrow>
            e = RemovePidDirs cg (clone_ret env) (removePidDirs_ret env))"
  using sandboxExec_paths [OF run]
  by (elim disjE conjE exE) (auto simp: is_RemovePidDirs_def)

subsection \<open>Coordination with the terminator\<close>

text \<open>
  Claim C8. After a successful handshake the parent calls \<open>waitpid\<close>, then stores 1 in
  \<open>terminated\<close>, frees the stack and releases the filter context if it is not null, and
  only then reads \<open>once\<close>. If \<open>once\<close> is not 1, it stores the null pointer in \<open>skip\<close> and
  calls \<open>terminate\<close>. If \<open>once\<close> is 1, it reads \<open>done\<close> until the value is not 0, which
  is the 1 that the terminator stores; as long as \<open>done\<close> stays 0 it does not go on, and
  if \<open>done\<close> is never set it does not return. In both cases it then frees the handle
  of the terminator, and the outcome is the classification of the wait status that
  \<open>waitpid\<close> returned.
\<close>

theorem terminator_coordination:
  assumes "malloc_ret env \<noteq> NULL" and "clone_ret env \<noteq> - 1" and "read_ret env \<noteq> - 1"
    and "setResourceLimits_ret env \<noteq> - 1" and "write_ret env \<noteq> - 1"
  shows "let reaped =
        [Eventfd (eventfd_p_ret env), Eventfd (eventfd_c_ret env),
           Malloc (1024 * 1024) (malloc_ret env),
           Clone (malloc_ret env + 1024 * 1024) (CLONE_NEWPID OR SIGCHLD)
             (child_payload env ep jp inp outp wl u g) (clone_ret env),
           Read (eventfd_p_ret env) (read_ret env),
           SetResourceLimits (clone_ret env) rl cg (setResourceLimits_ret env),
           Write (eventfd_c_ret env) (write_ret env),
           Close (eventfd_p_ret env) (close_p_ret env),
           Close (eventfd_c_ret env) (close_c_ret env),
           Waitpid (clone_ret env) (wstatus_ret env),
           Store_terminated (tp_ptr env) 1,
           Free (malloc_ret env)]
         @ (if ctx_seen env \<noteq> NULL then [Seccomp_release (ctx_seen env)] else [])
         @ [Load_once (tp_ptr env) (tp_once env)];
       outcome = classify k (wstatus_ret env) (exceeded_seen env)
    in (tp_once env \<noteq> 1 \<longrightarrow>
          sandboxExec k env ep jp inp outp cg rl wl u g =
            Some (reaped @ [Store_skip (tp_ptr env) NULL,
                            Terminate (tp_ptr env) (terminate_ret env),
                            Free (tp_ptr env)], outcome))
     \<and> (tp_once env = 1 \<longrightarrow>
          (\<forall>n. tp_done env n \<noteq> 0 \<and> (\<forall>j<n. tp_done env j = 0) \<longrightarrow>
             sandboxExec k env ep jp inp outp cg rl wl u g =
               Some (reaped @ replicate n (Load_done (tp_ptr env) 0)
                            @ [Load_done (tp_ptr env) (tp_done env n), Free (tp_ptr env)],
                     outcome))
        \<and> ((\<forall>j. tp_done env j = 0) \<longrightarrow>
             sandboxExec k env ep jp inp outp cg rl wl u g = None))"
  using assms
  by (auto simp: sandboxExec_def Let_def wait_done_first_nonzero wait_done_never)

text \<open>
  Three runs: the terminator is cancelled; the terminator has fired and sets \<open>done\<close>
  before the third read; the terminator has fired and never sets \<open>done\<close>.
\<close>

theorem terminator_coordination_witness:
  "malloc_ret parent_env_ok \<noteq> NULL \<and> clone_ret parent_env_ok \<noteq> - 1
   \<and> read_ret parent_env_ok \<noteq> - 1 \<and> setResourceLimits_ret parent_env_ok \<noteq> - 1
   \<and> write_ret parent_env_ok \<noteq> - 1
   \<and> tp_once parent_env_ok \<noteq> 1
   \<and> sandboxExec example_codes parent_env_ok ''/prog'' ''/jail'' ''in.txt'' ''out.txt'' ''/cg''
        (1000::nat) ''whitelist'' 1000 1000 =
     Some ([Eventfd 3, Eventfd 4, Malloc 1048576 4096,
            Clone 1052672 0x20000011
              \<lparr>exect_path = ''/prog'', jail_path = ''/jail'', input_file = ''in.txt'',
               output_file = ''out.txt'', whitelist = ''whitelist'', ctx = 12288,
               notify_c = 4, notify_p = 3, uid = 1000, gid = 1000\<rparr> 1234,
            Read 3 8, SetResourceLimits 1234 1000 ''/cg'' 0, Write 4 8, Close 3 0, Close 4 0,
            Waitpid 1234 0, Store_terminated 8192 1, Free 4096, Load_once 8192 0,
            Store_skip 8192 0, Terminate 8192 0, Free 8192], SB_OK)
   \<and> tp_once (parent_env_ok\<lparr>tp_once := 1, tp_done := done_at_third, wstatus_ret := 9,
                  exceeded_seen := 3, ctx_seen := 77\<rparr>) = 1
   \<and> done_at_third 2 \<noteq> 0 \<and> done_at_third 0 = 0 \<and> done_at_third 1 = 0
   \<and> sandboxExec example_codes
        (parent_env_ok\<lparr>tp_once := 1, tp_done := done_at_third, wstatus_ret := 9,
           exceeded_seen := 3, ctx_seen := 77\<rparr>)
        ''/prog'' ''/jail'' ''in.txt'' ''out.txt'' ''/cg'' (1000::nat) ''whitelist'' 1000 1000 =
     Some ([Eventfd 3, Eventfd 4, Malloc 1048576 4096,
            Clone 1052672 0x20000011
              \<lparr>exect_path = ''/prog'', jail_path = ''/jail'', input_file = ''in.txt'',
               output_file = ''out.txt'', whitelist = ''whitelist'', ctx = 12288,
               notify_c = 4, notify_p = 3, uid = 1000, gid = 1000\<rparr> 1234,
            Read 3 8, SetResourceLimits 1234 1000 ''/cg'' 0, Write 4 8, Close 3 0, Close 4 0,
            Waitpid 1234 9, Store_terminated 8192 1, Free 4096, Seccomp_release 77,
            Load_once 8192 1, Load_done 8192 0, Load_done 8192 0, Load_done 8192 1,
            Free 8192], SB_TIME_EXCEED)
   \<and> sandboxExec example_codes (parent_env_ok\<lparr>tp_once := 1\<rparr>)
        ''/prog'' ''/jail'' ''in.txt'' ''out.txt'' ''/cg'' (1000::nat) ''whitelist'' 1000 1000 = None"
proof -
  let ?fired = "parent_env_ok\<lparr>tp_once := 1, tp_done := done_at_third, wstatus_ret := 9,
                  exceeded_seen := 3, ctx_seen := 77\<rparr>"
  let ?stuck = "parent_env_ok\<lparr>tp_once := 1\<rparr>"
  have z: "\<forall>j<2. done_at_third j = 0" "\<forall>j. tp_done ?stuck j = 0"
    by (simp_all add: done_at_third_def parent_env_ok_def done_never_def)
  have two: "replicate 2 x = [x, x]" for x :: "(string, nat) event"
    by (simp add: numeral_2_eq_2)
  note a = terminator_coordination [where env = "parent_env_ok" and k = example_codes and ep = "''/prog''" and jp = "''/jail''"
      and inp = "''in.txt''" and outp = "''out.txt''" and cg = "''/cg''" and rl = "1000::nat"
      and wl = "''whitelist''" and u = 1000 and g = 1000]
  note b = terminator_coordination [where env = "?fired" and k = example_codes and ep = "''/prog''" and jp = "''/jail''"
      and inp = "''in.txt''" and outp = "''out.txt''" and cg = "''/cg''" and rl = "1000::nat"
      and wl = "''whitelist''" and u = 1000 and g = 1000,
      unfolded Let_def, THEN conjunct2, rule_format, THEN conjunct1, rule_format, of 2]
  note c = terminator_coordination [where env = "?stuck" and k = example_codes and ep = "''/prog''" and jp = "''/jail''"
      and inp = "''in.txt''" and outp = "''out.txt''" and cg = "''/cg''" and rl = "1000::nat"
      and wl = "''whitelist''" and u = 1000 and g = 1000,
      unfolded Let_def, THEN conjunct2, rule_format, THEN conjunct2, rule_format]
  show ?thesis
    using a b c z
    by (simp add: parent_env_ok_def NULL_def child_payload_def SIGTERM_def CLONE_NEWPID_def
        SIGCHLD_def example_codes_def classify_def switch_exceeded_def WIFEXITED_def WTERMSIG_def WEXITSTATUS_def
        WIFSIGNALED_def EXIT_CHILD_FAILURE_def done_at_third_def two Let_def)
qed

subsection \<open>A user program that exits with status 1\<close>

text \<open>
  Claim C10. After a successful handshake, a child whose wait status says that it exited
  normally with status 1 is classified \<open>SB_FAILURE\<close>, whatever the value of \<open>exceeded\<close>,
  so also when no limit was exceeded; and \<open>sandboxExec\<close> does return this outcome when the
  terminator has not fired or sets \<open>done\<close>. The status 1 is the one with which
  \<open>childFunc\<close> returns on every failure of the setup, so the parent cannot tell the two
  apart.
\<close>

theorem exit_status_one_is_failure:
  assumes "malloc_ret env \<noteq> NULL" and "clone_ret env \<noteq> - 1" and "read_ret env \<noteq> - 1"
    and "setResourceLimits_ret env \<noteq> - 1" and "write_ret env \<noteq> - 1"
    and "WIFEXITED (wstatus_ret env)" and "WEXITSTATUS (wstatus_ret env) = 1"
  shows "(\<forall>t r. sandboxExec k env ep jp inp outp cg rl wl u g = Some (t, r) \<longrightarrow> r = SB_FAILURE)
    \<and> (tp_once env \<noteq> 1 \<or> (\<exists>n. tp_done env n \<noteq> 0) \<longrightarrow>
          (\<exists>t. sandboxExec k env ep jp inp outp cg rl wl u g = Some (t, SB_FAILURE)))
    \<and> (\<forall>cenv cp ct s. childFunc cenv cp = (ct, Returned s) \<longrightarrow> s = WEXITSTATUS (wstatus_ret env))"
proof (intro conjI allI impI)
  have cl: "classify k (wstatus_ret env) (exceeded_seen env) = SB_FAILURE"
    using assms(6,7) by (simp add: classify_def EXIT_CHILD_FAILURE_def)
  {
    fix t r
    assume "sandboxExec k env ep jp inp outp cg rl wl u g = Some (t, r)"
    from sandboxExec_outcome [OF this assms(1-5)] cl show "r = SB_FAILURE" by simp
  next
    assume "tp_once env \<noteq> 1 \<or> (\<exists>n. tp_done env n \<noteq> 0)"
    then have "\<exists>t. sandboxExec k env ep jp inp outp cg rl wl u g =
        Some (t, classify k (wstatus_ret env) (exceeded_seen env))"
      by (rule sandboxExec_returns [OF assms(1-5)])
    with cl show "\<exists>t. sandboxExec k env ep jp inp outp cg rl wl u g = Some (t, SB_FAILURE)"
      by simp
  next
    fix cenv cp ct s
    assume "childFunc cenv cp = (ct, Returned s)"
    with childFunc_result [of cenv cp] have "s = EXIT_CHILD_FAILURE" by simp
    with assms(7) show "s = WEXITSTATUS (wstatus_ret env)" by (simp add: EXIT_CHILD_FAILURE_def)
  }
qed

text \<open>
  The run of a program that calls \<open>exit(1)\<close> while no limit is exceeded.
\<close>

theorem exit_status_one_is_failure_witness:
  "malloc_ret (parent_env_ok\<lparr>wstatus_ret := 0x100\<rparr>) \<noteq> NULL
   \<and> clone_ret (parent_env_ok\<lparr>wstatus_ret := 0x100\<rparr>) \<noteq> - 1
   \<and> read_ret (parent_env_ok\<lparr>wstatus_ret := 0x100\<rparr>) \<noteq> - 1
   \<and> setResourceLimits_ret (parent_env_ok\<lparr>wstatus_ret := 0x100\<rparr>) \<noteq> - 1
   \<and> write_ret (parent_env_ok\<lparr>wstatus_ret := 0x100\<rparr>) \<noteq> - 1
   \<and> WIFEXITED (wstatus_ret (parent_env_ok\<lparr>wstatus_ret := 0x100\<rparr>))
   \<and> WEXITSTATUS (wstatus_ret (parent_env_ok\<lparr>wstatus_ret := 0x100\<rparr>)) = 1
   \<and> exceeded_seen (parent_env_ok\<lparr>wstatus_ret := 0x100\<rparr>) = NO_EXCEED example_codes
   \<and> sandboxExec example_codes (parent_env_ok\<lparr>wstatus_ret := 0x100\<rparr>)
        ''/prog'' ''/jail'' ''in.txt'' ''out.txt'' ''/cg'' (1000::nat) ''whitelist'' 1000 1000 =
     Some ([Eventfd 3, Eventfd 4, Malloc 1048576 4096,
            Clone 1052672 0x20000011
              \<lparr>exect_path = ''/prog'', jail_path = ''/jail'', input_file = ''in.txt'',
               output_file = ''out.txt'', whitelist = ''whitelist'', ctx = 12288,
               notify_c = 4, notify_p = 3, uid = 1000, gid = 1000\<rparr> 1234,
            Read 3 8, SetResourceLimits 1234 1000 ''/cg'' 0, Write 4 8, Close 3 0, Close 4 0,
            Waitpid 1234 0x100, Store_terminated 8192 1, Free 4096, Load_once 8192 0,
            Store_skip 8192 0, Terminate 8192 0, Free 8192], SB_FAILURE)"
proof -
  let ?env = "parent_env_ok\<lparr>wstatus_ret := 0x100\<rparr>"
  have h: "malloc_ret ?env \<noteq> NULL" "clone_ret ?env \<noteq> - 1" "read_ret ?env \<noteq> - 1"
    "setResourceLimits_ret ?env \<noteq> - 1" "write_ret ?env \<noteq> - 1"
    "WIFEXITED (wstatus_ret ?env)" "WEXITSTATUS (wstatus_ret ?env) = 1"
    by (simp_all add: parent_env_ok_def NULL_def WIFEXITED_def WTERMSIG_def WEXITSTATUS_def)
  have e: "exceeded_seen ?env = NO_EXCEED example_codes"
    by (simp add: parent_env_ok_def example_codes_def)
  have run: "sandboxExec example_codes ?env
        ''/prog'' ''/jail'' ''in.txt'' ''out.txt'' ''/cg'' (1000::nat) ''whitelist'' 1000 1000 =
     Some ([Eventfd 3, Eventfd 4, Malloc 1048576 4096,
            Clone 1052672 0x20000011
              \<lparr>exect_path = ''/prog'', jail_path = ''/jail'', input_file = ''in.txt'',
               output_file = ''out.txt'', whitelist = ''whitelist'', ctx = 12288,
               notify_c = 4, notify_p = 3, uid = 1000, gid = 1000\<rparr> 1234,
            Read 3 8, SetResourceLimits 1234 1000 ''/cg'' 0, Write 4 8, Close 3 0, Close 4 0,
            Waitpid 1234 0x100, Store_terminated 8192 1, Free 4096, Load_once 8192 0,
            Store_skip 8192 0, Terminate 8192 0, Free 8192],
           classify example_codes 0x100 0)"
    by (simp add: sandboxExec_def Let_def parent_env_ok_def NULL_def child_payload_def
          CLONE_NEWPID_def SIGCHLD_def)
  from exit_status_one_is_failure [OF h, where k = example_codes and ep = "''/prog''"
      and jp = "''/jail''" and inp = "''in.txt''" and outp = "''out.txt''" and cg = "''/cg''"
      and rl = "1000::nat" and wl = "''whitelist''" and u = 1000 and g = 1000]
  have "\<forall>t r. sandboxExec example_codes ?env ''/prog'' ''/jail'' ''in.txt'' ''out.txt'' ''/cg''
      (1000::nat) ''whitelist'' 1000 1000 = Some (t, r) \<longrightarrow> r = SB_FAILURE"
    by (rule conjunct1)
  with run have "classify example_codes 0x100 0 = SB_FAILURE"
    by blast
  with run h e show ?thesis by simp
qed

end
